theory Spec2Isabelle
  imports Complex_Main
begin

section \<open>Python values used by the sentiment analyzer\<close>

text \<open>
  A Python \<open>str\<close> is a sequence of Unicode code points, so a text is a list of code
  points (natural numbers) and \<open>len\<close> is \<open>length\<close>. Python floats are read as real
  numbers: every score below is computed in exact arithmetic.
\<close>

type_synonym pychar = nat
type_synonym pystr = "pychar list"

definition py :: "string \<Rightarrow> pystr" where
  \<comment> \<open>A string literal of the source (all of them are ASCII).\<close>
  "py s = map of_char s"

definition str_isspace :: "pychar \<Rightarrow> bool" where
  \<comment> \<open>The whitespace of \<open>str.strip()\<close>, \<open>str.split()\<close> and the pattern \<open>\s\<close>: all 29
      whitespace code points of Unicode.\<close>
  "str_isspace c \<longleftrightarrow>
     (0x09 \<le> c \<and> c \<le> 0x0D) \<or> (0x1C \<le> c \<and> c \<le> 0x20) \<or> c = 0x85 \<or> c = 0xA0 \<or>
     c = 0x1680 \<or> (0x2000 \<le> c \<and> c \<le> 0x200A) \<or> c = 0x2028 \<or> c = 0x2029 \<or>
     c = 0x202F \<or> c = 0x205F \<or> c = 0x3000"

definition str_strip :: "pystr \<Rightarrow> pystr" where
  \<comment> \<open>\<open>text.strip()\<close>: leading and trailing whitespace removed.\<close>
  "str_strip t = rev (dropWhile str_isspace (rev (dropWhile str_isspace t)))"

fun split_from :: "pystr \<Rightarrow> pystr \<Rightarrow> pystr list" where
  "split_from w [] = (if w = [] then [] else [w])"
| "split_from w (c # cs) =
     (if str_isspace c then (if w = [] then split_from [] cs else w # split_from [] cs)
      else split_from (w @ [c]) cs)"

definition str_split :: "pystr \<Rightarrow> pystr list" where
  \<comment> \<open>\<open>text.split()\<close> without arguments: the maximal runs of non-whitespace, in order;
      \<open>split_from w cs\<close> scans \<open>cs\<close> with the token \<open>w\<close> read so far.\<close>
  "str_split t = split_from [] t"

fun split_on_from :: "pychar \<Rightarrow> pystr \<Rightarrow> pystr \<Rightarrow> pystr list" where
  "split_on_from sep w [] = [w]"
| "split_on_from sep w (c # cs) =
     (if c = sep then w # split_on_from sep [] cs else split_on_from sep (w @ [c]) cs)"

definition str_split_on :: "pychar \<Rightarrow> pystr \<Rightarrow> pystr list" where
  \<comment> \<open>\<open>text.split(sep)\<close> for a separator of one character: the pieces between the
      separators, empty pieces kept, so there is always at least one piece.\<close>
  "str_split_on sep t = split_on_from sep [] t"

section \<open>The libraries\<close>

text \<open>
  What the program takes from outside its own source: the two scorers of NLTK and
  TextBlob, and the Unicode character database of the interpreter, which \<open>str.isupper\<close>,
  \<open>str.lower\<close> and the class \<open>\w\<close> of \<open>re\<close> consult. For the code points below 256
  (Latin-1) the entries of the database are written out in the definitions below; for the
  code points from 256 on they are fields of \<open>libraries\<close>, so that every statement about
  \<open>analyze\<close> holds whatever these entries are.
\<close>

record vader =
  compound :: real
  pos :: real
  neu :: real
  neg :: real

record libraries =
  polarity_scores :: "pystr \<Rightarrow> vader"
    \<comment> \<open>\<open>SentimentIntensityAnalyzer().polarity_scores(text)\<close>\<close>
  textblob_sentiment :: "pystr \<Rightarrow> real \<times> real"
    \<comment> \<open>\<open>TextBlob(text).sentiment\<close>: polarity and subjectivity\<close>
  isupper_table :: "pychar \<Rightarrow> bool"
    \<comment> \<open>whether a code point from 256 on is uppercase\<close>
  lower_table :: "pychar \<Rightarrow> pystr"
    \<comment> \<open>the lowercase form of a code point from 256 on: one character or more
        (for U+0130, two)\<close>
  isalnum_table :: "pychar \<Rightarrow> bool"
    \<comment> \<open>whether a code point from 256 on is alphanumeric\<close>
  final_sigma :: "pystr \<Rightarrow> nat \<Rightarrow> bool"
    \<comment> \<open>whether the capital sigma at this index of this text ends a word (the context
        \<open>Final_Sigma\<close> of Unicode, which looks at the cased letters around it)\<close>

definition str_isupper :: "libraries \<Rightarrow> pychar \<Rightarrow> bool" where
  \<comment> \<open>\<open>c.isupper()\<close> for one character.\<close>
  "str_isupper libs c \<longleftrightarrow>
     (if c < 256 then (0x41 \<le> c \<and> c \<le> 0x5A) \<or> (0xC0 \<le> c \<and> c \<le> 0xDE \<and> c \<noteq> 0xD7)
      else isupper_table libs c)"

definition char_lower :: "libraries \<Rightarrow> pychar \<Rightarrow> pystr" where
  \<comment> \<open>The lowercase form of one character other than the capital sigma.\<close>
  "char_lower libs c =
     (if c < 256 then
        [if (0x41 \<le> c \<and> c \<le> 0x5A) \<or> (0xC0 \<le> c \<and> c \<le> 0xDE \<and> c \<noteq> 0xD7)
         then c + 0x20 else c]
      else lower_table libs c)"

definition lower_at :: "libraries \<Rightarrow> pystr \<Rightarrow> nat \<Rightarrow> pystr" where
  \<comment> \<open>What \<open>t.lower()\<close> writes for the character at index \<open>i\<close> of \<open>t\<close>: its lowercase
      form, and for the capital sigma U+03A3 the final sigma U+03C2 at the end of a word
      and the sigma U+03C3 elsewhere.\<close>
  "lower_at libs t i =
     (if t ! i = 0x3A3 then [if final_sigma libs t i then 0x3C2 else 0x3C3]
      else char_lower libs (t ! i))"

definition str_lower :: "libraries \<Rightarrow> pystr \<Rightarrow> pystr" where
  \<comment> \<open>\<open>text.lower()\<close>.\<close>
  "str_lower libs t = concat (map (lower_at libs t) [0..<length t])"

type_synonym lexicon = "(pystr \<times> real) list"
  \<comment> \<open>A dict literal with string keys, in source order; \<open>k in d\<close> is
      \<open>map_of d k \<noteq> None\<close> and \<open>d[k]\<close> is the value found.\<close>

section \<open>The analyzer and its lexicon tables\<close>

record sentiment_analyzer =
  positive_psychology_words :: lexicon
  negative_psychology_words :: lexicon
  intensity_modifiers :: lexicon

definition init :: sentiment_analyzer where
  \<comment> \<open>The three tables that \<open>__init__\<close> stores in \<open>self\<close>. Its fourth attribute,
      \<open>self.sia\<close>, is an object of the NLTK library and is part of \<open>libraries\<close>.\<close>
  "init = \<lparr>
     positive_psychology_words = [
       (py ''grateful'', 2.0), (py ''thankful'', 1.8), (py ''blessed'', 1.5),
       (py ''accomplished'', 2.2), (py ''proud'', 2.0), (py ''confident'', 1.8),
       (py ''optimistic'', 1.9), (py ''hopeful'', 2.1), (py ''peaceful'', 1.7),
       (py ''content'', 1.5), (py ''fulfilled'', 2.3), (py ''motivated'', 1.9),
       (py ''inspired'', 2.0), (py ''energetic'', 1.6), (py ''relaxed'', 1.4),
       (py ''calm'', 1.3), (py ''balanced'', 1.5), (py ''centered'', 1.4),
       (py ''empowered'', 2.1), (py ''resilient'', 2.0), (py ''progress'', 1.7),
       (py ''growth'', 1.8), (py ''breakthrough'', 2.2), (py ''healing'', 1.9)],
     negative_psychology_words = [
       (py ''anxious'', -2.1), (py ''overwhelmed'', -2.3), (py ''depressed'', -2.5),
       (py ''hopeless'', -2.8), (py ''frustrated'', -1.9), (py ''lonely'', -2.0),
       (py ''stressed'', -2.2), (py ''worried'', -1.8), (py ''disappointed'', -1.7),
       (py ''exhausted'', -2.0), (py ''burnout'', -2.4), (py ''numb'', -1.9),
       (py ''empty'', -2.1), (py ''worthless'', -2.7), (py ''helpless'', -2.4),
       (py ''trapped'', -2.2), (py ''confused'', -1.5), (py ''lost'', -1.8),
       (py ''broken'', -2.3), (py ''struggling'', -1.9), (py ''panic'', -2.6),
       (py ''fear'', -1.8), (py ''terror'', -2.5), (py ''dread'', -2.2)],
     intensity_modifiers = [
       (py ''very'', 1.3), (py ''extremely'', 1.5), (py ''incredibly'', 1.4),
       (py ''really'', 1.2), (py ''quite'', 1.1), (py ''pretty'', 1.1),
       (py ''somewhat'', 0.8), (py ''slightly'', 0.7), (py ''a bit'', 0.6),
       (py ''a little'', 0.6), (py ''totally'', 1.4), (py ''completely'', 1.5)] \<rparr>"

section \<open>The psychology-weighted scorer\<close>

definition word_score :: "sentiment_analyzer \<Rightarrow> pystr list \<Rightarrow> nat \<Rightarrow> pystr \<Rightarrow> real" where
  \<comment> \<open>The body of the loop of \<open>psychology_weighted_analysis\<close> at index \<open>i\<close>: the value
      added to \<open>total_score\<close>.\<close>
  "word_score self words i word =
     (let score =
        (case map_of (positive_psychology_words self) word of
           Some v \<Rightarrow> v
         | None \<Rightarrow>
             (case map_of (negative_psychology_words self) word of
                Some v \<Rightarrow> v
              | None \<Rightarrow> 0))
      in if i > 0 then
           (case map_of (intensity_modifiers self) (words ! (i - 1)) of
              Some modifier \<Rightarrow> score * modifier
            | None \<Rightarrow> score)
         else score)"

definition total_score :: "sentiment_analyzer \<Rightarrow> pystr list \<Rightarrow> real" where
  \<comment> \<open>\<open>total_score\<close> after the loop \<open>for i, word in enumerate(words)\<close>.\<close>
  "total_score self words =
     fold (\<lambda>(i, word) total. total + word_score self words i word) (enumerate 0 words) 0"

definition psychology_weighted_analysis :: "sentiment_analyzer \<Rightarrow> pystr \<Rightarrow> real" where
  "psychology_weighted_analysis self text =
     (let words = str_split text; word_count = length words
      in if word_count = 0 then 0 else total_score self words / real word_count)"

section \<open>Text normalisation\<close>

text \<open>
  \<open>preprocess_text\<close> calls \<open>re.sub\<close> with two kinds of pattern: \<open>\s+\<close>, and a literal
  contraction between two \<open>\b\<close> with the flag \<open>IGNORECASE\<close>. Both are modelled as the
  left-to-right scan for non-overlapping matches that \<open>re.sub\<close> makes.
\<close>

function sub_spaces :: "pystr \<Rightarrow> pystr" where
  "sub_spaces [] = []"
| "sub_spaces (c # cs) =
     (if str_isspace c then 0x20 # sub_spaces (dropWhile str_isspace cs)
      else c # sub_spaces cs)"
  by pat_completeness auto
termination
  by (relation "measure length") (auto simp: less_Suc_eq_le length_dropWhile_le)

definition re_word :: "libraries \<Rightarrow> pychar \<Rightarrow> bool" where
  \<comment> \<open>The class \<open>\w\<close> of a str pattern: alphanumeric or underscore.\<close>
  "re_word libs c \<longleftrightarrow>
     (if c < 256 then
        (0x30 \<le> c \<and> c \<le> 0x39) \<or> (0x41 \<le> c \<and> c \<le> 0x5A) \<or> c = 0x5F \<or>
        (0x61 \<le> c \<and> c \<le> 0x7A) \<or> c = 0xAA \<or> c = 0xB2 \<or> c = 0xB3 \<or> c = 0xB5 \<or>
        c = 0xB9 \<or> c = 0xBA \<or> (0xBC \<le> c \<and> c \<le> 0xBE) \<or> (0xC0 \<le> c \<and> c \<le> 0xD6) \<or>
        (0xD8 \<le> c \<and> c \<le> 0xF6) \<or> (0xF8 \<le> c \<and> c \<le> 0xFF)
      else isalnum_table libs c)"

definition word_boundary :: "libraries \<Rightarrow> pychar option \<Rightarrow> pychar option \<Rightarrow> bool" where
  \<comment> \<open>\<open>\b\<close> between two neighbouring characters; \<open>None\<close> is an end of the text.\<close>
  "word_boundary libs prev next \<longleftrightarrow>
     (case prev of None \<Rightarrow> False | Some c \<Rightarrow> re_word libs c) \<noteq>
     (case next of None \<Rightarrow> False | Some c \<Rightarrow> re_word libs c)"

definition ci_match :: "pychar \<Rightarrow> pychar \<Rightarrow> bool" where
  \<comment> \<open>A pattern character \<open>p\<close> (a lowercase ASCII letter or an apostrophe) against a
      character of the text under \<open>IGNORECASE\<close>: the letter in either case, and the
      characters that \<open>re\<close> takes as equal to \<open>i\<close>, \<open>s\<close> and \<open>k\<close>.\<close>
  "ci_match p c \<longleftrightarrow>
     c = p \<or> (0x61 \<le> p \<and> p \<le> 0x7A \<and> c + 0x20 = p) \<or>
     (p = 0x69 \<and> (c = 0x130 \<or> c = 0x131)) \<or> (p = 0x73 \<and> c = 0x17F) \<or>
     (p = 0x6B \<and> c = 0x212A)"

fun ci_prefix :: "pystr \<Rightarrow> pystr \<Rightarrow> bool" where
  "ci_prefix [] t = True"
| "ci_prefix (p # ps) [] = False"
| "ci_prefix (p # ps) (c # cs) = (ci_match p c \<and> ci_prefix ps cs)"

definition match_here :: "libraries \<Rightarrow> pystr \<Rightarrow> pychar option \<Rightarrow> pystr \<Rightarrow> bool" where
  \<comment> \<open>The pattern \<open>\b\<close> + \<open>pat\<close> + \<open>\b\<close> matches at the head of \<open>t\<close>, which follows the
      character \<open>prev\<close>.\<close>
  "match_here libs pat prev t \<longleftrightarrow>
     pat \<noteq> [] \<and> ci_prefix pat t \<and>
     word_boundary libs prev (case t of [] \<Rightarrow> None | c # _ \<Rightarrow> Some c) \<and>
     word_boundary libs (Some (t ! (length pat - 1)))
       (case drop (length pat) t of [] \<Rightarrow> None | c # _ \<Rightarrow> Some c)"

function sub_word :: "libraries \<Rightarrow> pystr \<Rightarrow> pystr \<Rightarrow> pychar option \<Rightarrow> pystr \<Rightarrow> pystr" where
  "sub_word libs pat repl prev [] = []"
| "sub_word libs pat repl prev (c # cs) =
     (if match_here libs pat prev (c # cs)
      then repl @ sub_word libs pat repl (Some ((c # cs) ! (length pat - 1)))
                    (drop (length pat) (c # cs))
      else c # sub_word libs pat repl (Some c) cs)"
  by pat_completeness auto
termination
  by (relation "measure (\<lambda>(libs, pat, repl, prev, t). length t)") (auto simp: match_here_def)

definition contractions :: "(pystr \<times> pystr) list" where
  "contractions = [
     (py ''i'm'', py ''i am''), (py ''i've'', py ''i have''), (py ''i'll'', py ''i will''),
     (py ''i'd'', py ''i would''), (py ''you're'', py ''you are''),
     (py ''you've'', py ''you have''), (py ''you'll'', py ''you will''),
     (py ''you'd'', py ''you would''), (py ''he's'', py ''he is''),
     (py ''she's'', py ''she is''), (py ''it's'', py ''it is''), (py ''we're'', py ''we are''),
     (py ''they're'', py ''they are''), (py ''can't'', py ''cannot''),
     (py ''won't'', py ''will not''), (py ''don't'', py ''do not''),
     (py ''didn't'', py ''did not''), (py ''couldn't'', py ''could not''),
     (py ''wouldn't'', py ''would not''), (py ''shouldn't'', py ''should not'')]"

definition preprocess_text :: "libraries \<Rightarrow> pystr \<Rightarrow> pystr" where
  "preprocess_text libs text =
     str_lower libs
       (foldl (\<lambda>t (contraction, expansion). sub_word libs contraction expansion None t)
          (sub_spaces (str_strip text)) contractions)"

section \<open>Emotional intensity\<close>

definition intensity_indicators :: "pystr list" where
  "intensity_indicators = [
     py ''very'', py ''extremely'', py ''incredibly'', py ''totally'', py ''completely'',
     py ''absolutely'', py ''utterly'', py ''deeply'', py ''intensely'', py ''overwhelming'',
     py ''devastating'', py ''amazing'', py ''fantastic'', py ''terrible'', py ''awful'']"

definition caps_ratio :: "libraries \<Rightarrow> pystr \<Rightarrow> real" where
  \<comment> \<open>\<open>sum(1 for c in text if c.isupper()) / max(len(text), 1)\<close>\<close>
  "caps_ratio libs text =
     real (length (filter (str_isupper libs) text)) / real (max (length text) 1)"

definition analyze_emotional_intensity :: "libraries \<Rightarrow> pystr \<Rightarrow> real" where
  "analyze_emotional_intensity libs text =
     (let words = str_split text;
          intensity_count = length (filter (\<lambda>word. word \<in> set intensity_indicators) words);
          exclamation_count = count_list text 0x21;
          intensity_score =
            real intensity_count / real (max (length words) 1) * 0.5 +
            real exclamation_count / real (max (length (str_split_on 0x2E text)) 1) * 0.3 +
            caps_ratio libs text * 0.2
      in min intensity_score 1.0)"

section \<open>Fusion, classification and confidence\<close>

definition calculate_combined_score :: "real \<Rightarrow> real \<Rightarrow> real \<Rightarrow> real \<Rightarrow> real" where
  "calculate_combined_score vader_compound textblob_polarity psych_score intensity_score =
     (let combined =
            vader_compound * 0.35 + textblob_polarity * 0.25 + psych_score * 0.30 +
            intensity_score * 0.10
      in max (-1.0) (min 1.0 combined))"

datatype sentiment = Positive | Negative | Neutral
  \<comment> \<open>The three labels \<open>'positive'\<close>, \<open>'negative'\<close> and \<open>'neutral'\<close>.\<close>

definition classify_sentiment :: "real \<Rightarrow> sentiment" where
  "classify_sentiment combined_score =
     (if combined_score \<ge> 0.15 then Positive
      else if combined_score \<le> -0.15 then Negative
      else Neutral)"

definition calculate_confidence :: "vader \<Rightarrow> real \<Rightarrow> real \<Rightarrow> real" where
  "calculate_confidence vader_scores textblob_polarity psych_score =
     (let scores = [compound vader_scores, textblob_polarity, psych_score];
          non_zero_scores = filter (\<lambda>s. \<bar>s\<bar> > 0.05) scores
      in if length non_zero_scores < 2 then 0.5
         else
           let positive_count = int (length (filter (\<lambda>s. s > 0.1) non_zero_scores));
               negative_count = int (length (filter (\<lambda>s. s < -0.1) non_zero_scores));
               neutral_count = int (length non_zero_scores) - positive_count - negative_count;
               max_agreement = max (max positive_count negative_count) neutral_count;
               agreement_ratio = real_of_int max_agreement / real (length non_zero_scores);
               avg_magnitude =
                 sum_list (map (\<lambda>s. \<bar>s\<bar>) non_zero_scores) / real (length non_zero_scores);
               confidence = agreement_ratio * 0.7 + avg_magnitude * 0.3
           in min confidence 1.0)"

section \<open>The pipeline\<close>

definition round_half_even :: "real \<Rightarrow> int" where
  "round_half_even y =
     (let f = \<lfloor>y\<rfloor>; d = y - of_int f
      in if d < 1 / 2 then f else if d > 1 / 2 then f + 1 else if even f then f else f + 1)"

definition py_round :: "real \<Rightarrow> nat \<Rightarrow> real" where
  \<comment> \<open>The builtin \<open>round(x, ndigits)\<close>: to the nearest multiple of \<open>10 ** -ndigits\<close>,
      a tie to the even one.\<close>
  "py_round x ndigits = of_int (round_half_even (x * 10 ^ ndigits)) / 10 ^ ndigits"

record analysis_result =
  compound_score :: real
  sentiment_label :: sentiment
  confidence :: real
  vader_scores :: vader
  textblob_polarity :: real
  textblob_subjectivity :: real
  psychology_score :: real
  emotional_intensity :: real
  word_count :: nat

definition empty_result :: analysis_result where
  \<comment> \<open>\<open>_empty_result\<close>\<close>
  "empty_result = \<lparr>
     compound_score = 0.0,
     sentiment_label = Neutral,
     confidence = 0.0,
     vader_scores = \<lparr>compound = 0.0, pos = 0.0, neu = 1.0, neg = 0.0\<rparr>,
     textblob_polarity = 0.0,
     textblob_subjectivity = 0.0,
     psychology_score = 0.0,
     emotional_intensity = 0.0,
     word_count = 0 \<rparr>"

datatype scorer = Vader | TextBlob | Psychology | Intensity

definition analyze :: "libraries \<Rightarrow> sentiment_analyzer \<Rightarrow> pystr \<Rightarrow> analysis_result \<times> scorer list" where
  \<comment> \<open>The result of \<open>analyze\<close>, and the scoring methods it has called, in call order.\<close>
  "analyze libs self text =
     (if text = [] \<or> str_strip text = [] then (empty_result, [])
      else
        let cleaned_text = preprocess_text libs text;
            vader_scores = polarity_scores libs cleaned_text;
            (textblob_polarity, textblob_subjectivity) = textblob_sentiment libs cleaned_text;
            psych_score = psychology_weighted_analysis self cleaned_text;
            intensity_score = analyze_emotional_intensity libs cleaned_text;
            combined_score =
              calculate_combined_score (compound vader_scores) textblob_polarity psych_score
                intensity_score;
            sentiment_label = classify_sentiment combined_score;
            confidence = calculate_confidence vader_scores textblob_polarity psych_score
        in (\<lparr> compound_score = py_round combined_score 3,
              sentiment_label = sentiment_label,
              confidence = py_round confidence 3,
              vader_scores = vader_scores,
              textblob_polarity = py_round textblob_polarity 3,
              textblob_subjectivity = py_round textblob_subjectivity 3,
              psychology_score = py_round psych_score 3,
              emotional_intensity = py_round intensity_score 3,
              word_count = length (str_split cleaned_text) \<rparr>,
            [Vader, TextBlob, Psychology, Intensity]))"

section \<open>Reference definitions, following the specification\<close>

definition token_weight :: "sentiment_analyzer \<Rightarrow> pystr \<Rightarrow> real" where
  \<comment> \<open>The weight of a token in the positive or negative domain table, 0 if absent in both.\<close>
  "token_weight self tok =
     (case map_of (positive_psychology_words self) tok of
        Some v \<Rightarrow> v
      | None \<Rightarrow> (case map_of (negative_psychology_words self) tok of Some v \<Rightarrow> v | None \<Rightarrow> 0))"

definition modifier_of :: "sentiment_analyzer \<Rightarrow> pystr option \<Rightarrow> real" where
  \<comment> \<open>The factor that the preceding token gives: its modifier when it is in the
      intensity-modifier table, and 1 when it is not or when there is no preceding token.\<close>
  "modifier_of self prev =
     (case prev of
        None \<Rightarrow> 1
      | Some p \<Rightarrow> (case map_of (intensity_modifiers self) p of Some m \<Rightarrow> m | None \<Rightarrow> 1))"

definition domainScore_spec :: "sentiment_analyzer \<Rightarrow> pystr \<Rightarrow> real" where
  "domainScore_spec self text =
     (let tokens = str_split text
      in if tokens = [] then 0
         else (\<Sum>(prev, tok) \<leftarrow> zip (None # map Some tokens) tokens.
                 token_weight self tok * modifier_of self prev) / real (length tokens))"

definition confidence_spec :: "real \<Rightarrow> real \<Rightarrow> real \<Rightarrow> real" where
  "confidence_spec general_compound general_polarity domain_weighted =
     (let remaining = filter (\<lambda>s. \<not> \<bar>s\<bar> \<le> 0.05) [general_compound, general_polarity, domain_weighted];
          positive = filter (\<lambda>s. s > 0.1) remaining;
          negative = filter (\<lambda>s. s < -0.1) remaining;
          neutral = filter (\<lambda>s. \<not> s > 0.1 \<and> \<not> s < -0.1) remaining;
          largest = max (length positive) (max (length negative) (length neutral))
      in if length remaining < 2 then 0.5
         else min 1.0
                (real largest / real (length remaining) * 0.7 +
                 sum_list (map abs remaining) / real (length remaining) * 0.3))"

definition intensity_without_caps :: "pystr \<Rightarrow> real" where
  \<comment> \<open>The intensity score without its uppercase-ratio term: the share of intensity
      words times 0.5 plus the exclamation marks per sentence times 0.3, capped at 1.\<close>
  "intensity_without_caps text =
     (let words = str_split text
      in min (real (length (filter (\<lambda>word. word \<in> set intensity_indicators) words)) /
                real (max (length words) 1) * 0.5 +
              real (count_list text 0x21) / real (max (length (str_split_on 0x2E text)) 1) * 0.3)
           1.0)"

definition del_keys :: "pystr list \<Rightarrow> lexicon \<Rightarrow> lexicon" where
  \<comment> \<open>A table without the entries of the given keys.\<close>
  "del_keys ks d = filter (\<lambda>(k, v). k \<notin> set ks) d"

section \<open>Characters that stay uppercase\<close>

text \<open>
  \<open>lower()\<close> maps each character to its lowercase form, and a character without one to
  itself. The Unicode database has uppercase characters without a lowercase form, such
  as the Greek letter U+03D2: a text that holds one is not free of uppercase characters
  after \<open>lower()\<close>.
\<close>

definition lower_forms :: "libraries \<Rightarrow> pychar \<Rightarrow> pystr" where
  \<comment> \<open>The characters that \<open>lower()\<close> can write for the character \<open>c\<close>, wherever it
      stands in a text.\<close>
  "lower_forms libs c = (if c = 0x3A3 then [0x3C2, 0x3C3] else char_lower libs c)"

definition lower_keeps_upper :: "libraries \<Rightarrow> pychar \<Rightarrow> bool" where
  \<comment> \<open>\<open>lower()\<close> can write an uppercase character for \<open>c\<close>: as for U+03D2, an
      uppercase letter that has no lowercase form.\<close>
  "lower_keeps_upper libs c \<longleftrightarrow> list_ex (str_isupper libs) (lower_forms libs c)"

definition with_entries :: "libraries \<Rightarrow> libraries" where
  \<comment> \<open>The libraries \<open>libs\<close> with the entries that the Unicode database has for the
      Cyrillic letters U+0410 to U+044F (capitals up to U+042F, each 32 below its small
      letter) and for the Greek letter U+03D2 (uppercase, and its own lowercase form).\<close>
  "with_entries libs = libs \<lparr>
     isupper_table :=
       (\<lambda>c. if 0x410 \<le> c \<and> c \<le> 0x44F then c \<le> 0x42F
            else if c = 0x3D2 then True else isupper_table libs c),
     lower_table :=
       (\<lambda>c. if 0x410 \<le> c \<and> c \<le> 0x42F then [c + 0x20]
            else if (0x430 \<le> c \<and> c \<le> 0x44F) \<or> c = 0x3D2 then [c] else lower_table libs c),
     isalnum_table :=
       (\<lambda>c. if (0x410 \<le> c \<and> c \<le> 0x44F) \<or> c = 0x3D2 then True else isalnum_table libs c) \<rparr>"

section \<open>The lexicon tables\<close>

lemma str_split_evals:
  "str_split (py ''grateful'') = [py ''grateful'']"
  "str_split (py ''very grateful'') = [py ''very'', py ''grateful'']"
  by (simp_all add: str_split_def py_def str_isspace_def)

text \<open>
  C9. The positive and the negative table of the analyzer share no key, every weight of
  the positive table is above 0 and every weight of the negative table is below 0.
\<close>

theorem lexicon_tables_disjoint_signed:
  "set (map fst (positive_psychology_words init)) \<inter>
     set (map fst (negative_psychology_words init)) = {}
   \<and> list_all (\<lambda>(w, v). 0 < v) (positive_psychology_words init)
   \<and> list_all (\<lambda>(w, v). v < 0) (negative_psychology_words init)"
  by (simp add: init_def py_def)

section \<open>The psychology-weighted scorer: properties\<close>

lemma psychology_values:
  "psychology_weighted_analysis init (py ''very grateful'') = 1.3"
  "psychology_weighted_analysis init (py ''grateful'') = 2.0"
  "total_score init (str_split (py ''very grateful'')) = 2.6"
  "total_score init (str_split (py ''grateful'')) = 2.0"
  unfolding psychology_weighted_analysis_def str_split_evals Let_def total_score_def
  by (simp_all add: enumerate_simps word_score_def init_def py_def)

text \<open>
  C4, as stated: the scorer returns more for "very grateful" than for "grateful". It does
  not: the modifier raises the sum from 2.0 to 2.6, but the sum is divided by the number
  of tokens, so the two values are 1.3 and 2.0.
\<close>

theorem very_grateful_not_greater:
  "\<not> psychology_weighted_analysis init (py ''grateful'')
       < psychology_weighted_analysis init (py ''very grateful'')"
  by (simp add: psychology_values)

text \<open>
  C4, amended: the summed contribution of "very grateful" (2.6, the weight 2.0 of grateful
  times the modifier 1.3 of very) is strictly greater than that of "grateful" (2.0); the
  values the scorer returns, the sums divided by the token counts, are 1.3 and 2.0.
\<close>

theorem very_grateful_total_greater:
  "total_score init (str_split (py ''grateful'')) < total_score init (str_split (py ''very grateful''))
   \<and> total_score init (str_split (py ''very grateful'')) = 2.0 * 1.3
   \<and> total_score init (str_split (py ''grateful'')) = 2.0
   \<and> psychology_weighted_analysis init (py ''very grateful'') = 1.3
   \<and> psychology_weighted_analysis init (py ''grateful'') = 2.0"
  by (simp add: psychology_values)

lemma word_score_spec:
  "word_score self (pre @ w # rest) (length pre) w =
     token_weight self w * modifier_of self (if pre = [] then None else Some (last pre))"
  by (auto simp: word_score_def token_weight_def modifier_of_def nth_append last_conv_nth
      split: option.splits)

lemma fold_total_spec:
  "fold (\<lambda>(i, word) total. total + word_score self (pre @ rest) i word)
        (enumerate (length pre) rest) acc =
   acc + (\<Sum>(prev, tok) \<leftarrow> zip ((if pre = [] then None else Some (last pre)) # map Some rest) rest.
            token_weight self tok * modifier_of self prev)"
proof (induction rest arbitrary: pre acc)
  case Nil
  show ?case by simp
next
  case (Cons w rest)
  have "fold (\<lambda>(i, word) total. total + word_score self ((pre @ [w]) @ rest) i word)
          (enumerate (length (pre @ [w])) rest) (acc + word_score self (pre @ w # rest) (length pre) w)
        = (acc + word_score self (pre @ w # rest) (length pre) w) +
          (\<Sum>(prev, tok) \<leftarrow> zip (Some w # map Some rest) rest.
            token_weight self tok * modifier_of self prev)"
    using Cons.IH [of "pre @ [w]"] by simp
  then show ?case
    by (simp add: word_score_spec)
qed

lemma whitespace_only_split: "str_split (py '' '') = []"
  by (simp add: str_split_def py_def str_isspace_def)

text \<open>
  C5. For every text and every three tables, the scorer is the reference definition
  \<open>domainScore_spec\<close>: the tokens of the whitespace split, each with its weight from the
  positive or negative table (0 if in neither) times the modifier of the token just
  before it when that token is in the modifier table, summed and divided by the number
  of tokens; and with no token the scorer returns 0.
\<close>

theorem psychology_weighted_analysis_refines_spec:
  "psychology_weighted_analysis self text = domainScore_spec self text
   \<and> (str_split text = [] \<longrightarrow> psychology_weighted_analysis self text = 0)"
  using fold_total_spec [of self "[]" "str_split text" 0]
  by (simp add: psychology_weighted_analysis_def domainScore_spec_def total_score_def Let_def)

theorem psychology_weighted_analysis_refines_spec_witness:
  "str_split (py '' '') = []
   \<and> psychology_weighted_analysis init (py '' '') = domainScore_spec init (py '' '')
   \<and> psychology_weighted_analysis init (py '' '') = 0"
  using psychology_weighted_analysis_refines_spec [of init "py '' ''"]
  by (simp add: whitespace_only_split)

lemma split_from_no_space:
  "(\<forall>c\<in>set w. \<not> str_isspace c) \<Longrightarrow> tok \<in> set (split_from w cs) \<Longrightarrow>
     tok \<noteq> [] \<and> (\<forall>c\<in>set tok. \<not> str_isspace c)"
proof (induction cs arbitrary: w)
  case Nil
  then show ?case by (simp split: if_splits)
next
  case (Cons c cs)
  show ?case
  proof (cases "str_isspace c")
    case True
    with Cons.prems have "tok \<in> set (split_from [] cs) \<or> (w \<noteq> [] \<and> tok = w)"
      by (cases "w = []") auto
    then show ?thesis
    proof
      assume "tok \<in> set (split_from [] cs)"
      then show ?thesis using Cons.IH [of "[]"] by simp
    next
      assume "w \<noteq> [] \<and> tok = w"
      with Cons.prems(1) show ?thesis by simp
    qed
  next
    case False
    with Cons.prems have "tok \<in> set (split_from (w @ [c]) cs)" by simp
    moreover from False Cons.prems(1) have "\<forall>x\<in>set (w @ [c]). \<not> str_isspace x" by simp
    ultimately show ?thesis using Cons.IH [of "w @ [c]"] by blast
  qed
qed

lemma str_split_no_space:
  "tok \<in> set (str_split s) \<Longrightarrow> tok \<noteq> [] \<and> (\<forall>c\<in>set tok. \<not> str_isspace c)"
  using split_from_no_space [of "[]" tok s] by (simp add: str_split_def)

lemma multiword_not_token:
  assumes "tok \<in> set (str_split s)"
  shows "tok \<noteq> py ''a bit'' \<and> tok \<noteq> py ''a little''"
proof -
  have sp: "str_isspace 0x20" by (simp add: str_isspace_def)
  have "(0x20::nat) \<in> set (py ''a bit'')" "(0x20::nat) \<in> set (py ''a little'')"
    by (simp_all add: py_def)
  with sp str_split_no_space [OF assms] show ?thesis by metis
qed

lemma map_of_del_keys:
  "map_of (del_keys ks d) k = (if k \<in> set ks then None else map_of d k)"
  by (induction d) (auto simp: del_keys_def)

lemma word_score_del_multiword:
  assumes "set words \<subseteq> set (str_split s)" "i < length words"
  shows "word_score (self\<lparr>intensity_modifiers :=
            del_keys [py ''a bit'', py ''a little''] (intensity_modifiers self)\<rparr>) words i word
       = word_score self words i word"
proof (cases "i > 0")
  case True
  with assms have "words ! (i - 1) \<in> set (str_split s)"
    by (metis less_imp_diff_less nth_mem subsetD)
  from multiword_not_token [OF this] show ?thesis
    by (simp add: word_score_def map_of_del_keys Let_def cong: option.case_cong)
next
  case False
  then show ?thesis by (simp add: word_score_def cong: option.case_cong)
qed

lemma total_score_del_multiword:
  "total_score (self\<lparr>intensity_modifiers :=
      del_keys [py ''a bit'', py ''a little''] (intensity_modifiers self)\<rparr>) (str_split s)
     = total_score self (str_split s)"
  unfolding total_score_def
proof (rule fold_cong)
  fix x assume mem: "x \<in> set (enumerate 0 (str_split s))"
  obtain i word where x: "x = (i, word)" by (cases x rule: prod.exhaust)
  from mem have "i < length (str_split s)"
    by (simp add: x in_set_enumerate_eq)
  then show "(case x of (i, word) \<Rightarrow> \<lambda>total. total + word_score (self\<lparr>intensity_modifiers :=
        del_keys [py ''a bit'', py ''a little''] (intensity_modifiers self)\<rparr>) (str_split s) i word)
     = (case x of (i, word) \<Rightarrow> \<lambda>total. total + word_score self (str_split s) i word)"
    by (simp add: x word_score_del_multiword [of _ s])
qed simp_all

lemma a_bit_grateful_split:
  "str_split (py ''a bit grateful'') = [py ''a'', py ''bit'', py ''grateful'']"
  by (simp add: str_split_def py_def str_isspace_def)

text \<open>
  C10. No token of a whitespace split is 'a bit' or 'a little', so these two entries of
  the modifier table never modify a weight: for every three tables, the scorer with the
  full modifier table and the scorer with the two entries removed are the same function.
\<close>

theorem multiword_modifiers_inert:
  "(\<forall>tok \<in> set (str_split s). tok \<noteq> py ''a bit'' \<and> tok \<noteq> py ''a little'')
   \<and> psychology_weighted_analysis
       (self\<lparr>intensity_modifiers :=
          del_keys [py ''a bit'', py ''a little''] (intensity_modifiers self)\<rparr>)
     = psychology_weighted_analysis self"
proof
  show "\<forall>tok \<in> set (str_split s). tok \<noteq> py ''a bit'' \<and> tok \<noteq> py ''a little''"
    using multiword_not_token by simp
  show "psychology_weighted_analysis
       (self\<lparr>intensity_modifiers :=
          del_keys [py ''a bit'', py ''a little''] (intensity_modifiers self)\<rparr>)
     = psychology_weighted_analysis self"
    by (rule ext) (simp add: psychology_weighted_analysis_def total_score_del_multiword Let_def)
qed

theorem multiword_modifiers_inert_witness:
  "py ''bit'' \<in> set (str_split (py ''a bit grateful''))
   \<and> py ''bit'' \<noteq> py ''a bit'' \<and> py ''bit'' \<noteq> py ''a little''
   \<and> psychology_weighted_analysis
       (init\<lparr>intensity_modifiers :=
          del_keys [py ''a bit'', py ''a little''] (intensity_modifiers init)\<rparr>)
       (py ''a bit grateful'')
     = psychology_weighted_analysis init (py ''a bit grateful'')"
proof -
  have mem: "py ''bit'' \<in> set (str_split (py ''a bit grateful''))"
    by (simp add: a_bit_grateful_split)
  from multiword_modifiers_inert [of "py ''a bit grateful''" init] mem
  show ?thesis by metis
qed

section \<open>Classification, fusion and confidence: properties\<close>

text \<open>
  C3. For every real score the classifier returns positive exactly when the score is at
  least 0.15, negative exactly when it is at most -0.15 and neutral exactly when it is
  strictly between; so 0.15 is positive, 0.1499 neutral, -0.15 negative, -0.1499 neutral.
\<close>

theorem classify_sentiment_thresholds:
  "(classify_sentiment x = Positive \<longleftrightarrow> x \<ge> 0.15)
   \<and> (classify_sentiment x = Negative \<longleftrightarrow> x \<le> -0.15)
   \<and> (classify_sentiment x = Neutral \<longleftrightarrow> -0.15 < x \<and> x < 0.15)
   \<and> classify_sentiment 0.15 = Positive
   \<and> classify_sentiment 0.1499 = Neutral
   \<and> classify_sentiment (-0.15) = Negative
   \<and> classify_sentiment (-0.1499) = Neutral"
  by (simp add: classify_sentiment_def)

text \<open>
  C7. For all real inputs the fused score is the weighted sum of the first general score
  times 0.35, the second general score times 0.25, the domain-weighted score times 0.30
  and the intensity score times 0.10, clamped to the interval from -1 to 1.
\<close>

theorem calculate_combined_score_weighted_clamped:
  "calculate_combined_score g1 g2 d i =
     (let s = g1 * 0.35 + g2 * 0.25 + d * 0.30 + i * 0.10
      in if s < -1 then -1 else if s > 1 then 1 else s)
   \<and> -1 \<le> calculate_combined_score g1 g2 d i
   \<and> calculate_combined_score g1 g2 d i \<le> 1"
  by (simp add: calculate_combined_score_def Let_def)

lemma neutral_count_filter:
  assumes "\<And>s. \<not> (P s \<and> Q s)"
  shows "int (length xs) - int (length (filter P xs)) - int (length (filter Q xs))
       = int (length (filter (\<lambda>s. \<not> P s \<and> \<not> Q s) xs))"
  using assms by (induction xs) auto

lemma neutral_count_scores:
  "int (length xs) - int (length (filter (\<lambda>s. s > 0.1) xs))
       - int (length (filter (\<lambda>s. s < -0.1) xs))
     = int (length (filter (\<lambda>s::real. \<not> s > 0.1 \<and> \<not> s < -0.1) xs))"
  by (rule neutral_count_filter) simp

lemma max3_int_nat:
  "real_of_int (max (max (int a) (int b)) (int c)) = real (max a (max b c))"
  by (simp add: max_def)

lemma remaining_filter:
  "filter (\<lambda>s::real. \<not> \<bar>s\<bar> \<le> 0.05) xs = filter (\<lambda>s. \<bar>s\<bar> > 0.05) xs"
  by (simp add: not_le)

lemma confidence_values:
  "calculate_confidence \<lparr>compound = 0.8, pos = 0, neu = 0, neg = 0\<rparr> 0.0 0.01 = 0.5"
  "calculate_confidence \<lparr>compound = 0.8, pos = 0, neu = 0, neg = 0\<rparr> 0.6 1.3 = 0.97"
  by (simp_all add: calculate_confidence_def)

text \<open>
  C6. The confidence estimator is the reference definition \<open>confidence_spec\<close> of the three
  raw scores: the scores of absolute value at most 0.05 are discarded; with fewer than 2
  left the result is 0.5; otherwise the rest is split into the scores above 0.1, the
  scores below -0.1 and the others, and the result is the size of the largest part over
  the number of remaining scores, times 0.7, plus the average absolute value of the
  remaining scores times 0.3, and at most 1.
\<close>

theorem calculate_confidence_refines_spec:
  "calculate_confidence vs tb ps = confidence_spec (compound vs) tb ps
   \<and> (length (filter (\<lambda>s. \<bar>s\<bar> > 0.05) [compound vs, tb, ps]) < 2 \<longrightarrow>
        calculate_confidence vs tb ps = 0.5)"
proof
  show "calculate_confidence vs tb ps = confidence_spec (compound vs) tb ps"
    unfolding calculate_confidence_def confidence_spec_def Let_def remaining_filter
      neutral_count_scores max3_int_nat
    by (simp only: min.commute)
  show "length (filter (\<lambda>s. \<bar>s\<bar> > 0.05) [compound vs, tb, ps]) < 2 \<longrightarrow>
        calculate_confidence vs tb ps = 0.5"
  proof
    assume few: "length (filter (\<lambda>s. \<bar>s\<bar> > 0.05) [compound vs, tb, ps]) < 2"
    show "calculate_confidence vs tb ps = 0.5"
      unfolding calculate_confidence_def Let_def by (simp only: few if_True)
  qed
qed

theorem calculate_confidence_refines_spec_witness:
  "length (filter (\<lambda>s. \<bar>s\<bar> > 0.05) [0.8, 0.0, 0.01 :: real]) < 2
   \<and> calculate_confidence \<lparr>compound = 0.8, pos = 0, neu = 0, neg = 0\<rparr> 0.0 0.01 = 0.5
   \<and> confidence_spec 0.8 0.0 0.01 = 0.5
   \<and> confidence_spec 0.8 0.6 1.3 = 0.97"
proof -
  have few: "length (filter (\<lambda>s. \<bar>s\<bar> > 0.05) [0.8, 0.0, 0.01 :: real]) < 2"
    by simp
  have floor: "confidence_spec 0.8 0.0 0.01 = 0.5"
    using calculate_confidence_refines_spec
      [of "\<lparr>compound = 0.8, pos = 0, neu = 0, neg = 0\<rparr>" "0.0" "0.01", THEN conjunct1, symmetric]
    by (simp only: confidence_values vader.select_convs)
  have agree: "confidence_spec 0.8 0.6 1.3 = 0.97"
    using calculate_confidence_refines_spec
      [of "\<lparr>compound = 0.8, pos = 0, neu = 0, neg = 0\<rparr>" "0.6" "1.3", THEN conjunct1, symmetric]
    by (simp only: confidence_values vader.select_convs)
  from few floor agree confidence_values(1) show ?thesis
    by (intro conjI)
qed

section \<open>The pipeline: properties\<close>

lemma dropWhile_Nil_iff: "dropWhile P xs = [] \<longleftrightarrow> (\<forall>x\<in>set xs. P x)"
  by (induction xs) auto

lemma str_strip_empty_iff: "str_strip t = [] \<longleftrightarrow> (\<forall>c\<in>set t. str_isspace c)"
proof
  assume "str_strip t = []"
  then have all: "\<forall>x\<in>set (dropWhile str_isspace t). str_isspace x"
    by (simp add: str_strip_def dropWhile_Nil_iff)
  have "dropWhile str_isspace t = []"
  proof (cases "dropWhile str_isspace t")
    case Nil
    then show ?thesis .
  next
    case (Cons x xs)
    then have "\<not> str_isspace x" using hd_dropWhile [of str_isspace t] by simp
    with all Cons show ?thesis by simp
  qed
  then show "\<forall>c\<in>set t. str_isspace c" by (simp add: dropWhile_Nil_iff)
next
  assume "\<forall>c\<in>set t. str_isspace c"
  then show "str_strip t = []" by (auto simp: str_strip_def dest: set_dropWhileD)
qed

text \<open>
  C2. For every text that is empty or holds only whitespace, \<open>analyze\<close> returns the
  fixed neutral result, with compound score 0, label neutral, confidence 0 and word count
  0, and has called none of the scoring methods, whatever the two libraries compute.
\<close>

theorem analyze_whitespace_only:
  assumes "\<forall>c\<in>set text. str_isspace c"
  shows "analyze libs self text = (empty_result, [])
     \<and> compound_score (fst (analyze libs self text)) = 0.0
     \<and> sentiment_label (fst (analyze libs self text)) = Neutral
     \<and> confidence (fst (analyze libs self text)) = 0.0
     \<and> word_count (fst (analyze libs self text)) = 0
     \<and> snd (analyze libs self text) = []"
proof -
  from assms have "str_strip text = []" by (simp add: str_strip_empty_iff)
  then have "analyze libs self text = (empty_result, [])" by (simp add: analyze_def)
  then show ?thesis by (simp add: empty_result_def)
qed

theorem analyze_whitespace_only_witness:
  "analyze \<lparr>polarity_scores = (\<lambda>t. \<lparr>compound = 1, pos = 1, neu = 0, neg = 0\<rparr>),
            textblob_sentiment = (\<lambda>t. (1, 1)),
            isupper_table = (\<lambda>c. False), lower_table = (\<lambda>c. [c]),
            isalnum_table = (\<lambda>c. False), final_sigma = (\<lambda>t i. False)\<rparr> init (py ''   '') = (empty_result, [])
   \<and> analyze \<lparr>polarity_scores = (\<lambda>t. \<lparr>compound = 1, pos = 1, neu = 0, neg = 0\<rparr>),
            textblob_sentiment = (\<lambda>t. (1, 1)),
            isupper_table = (\<lambda>c. False), lower_table = (\<lambda>c. [c]),
            isalnum_table = (\<lambda>c. False), final_sigma = (\<lambda>t i. False)\<rparr> init [] = (empty_result, [])
   \<and> compound_score empty_result = 0 \<and> sentiment_label empty_result = Neutral
   \<and> confidence empty_result = 0 \<and> word_count empty_result = 0"
proof -
  have ws: "\<forall>c\<in>set (py ''   ''). str_isspace c"
    by (simp add: py_def str_isspace_def)
  have none: "\<forall>c\<in>set ([] :: pystr). str_isspace c"
    by simp
  from analyze_whitespace_only [OF ws] analyze_whitespace_only [OF none]
  show ?thesis by (simp add: empty_result_def)
qed

lemma round_half_even_bounds:
  assumes "of_int a \<le> y" "y \<le> of_int b"
  shows "a \<le> round_half_even y \<and> round_half_even y \<le> b"
proof -
  have lo: "a \<le> \<lfloor>y\<rfloor>" using assms(1) by (simp add: le_floor_iff)
  have hi: "\<lfloor>y\<rfloor> \<le> b" using assms(2) by (simp add: floor_le_iff)
  have up: "\<lfloor>y\<rfloor> + 1 \<le> b" if "y - of_int \<lfloor>y\<rfloor> > 0"
  proof -
    from that have "of_int \<lfloor>y\<rfloor> < y" by simp
    with assms(2) have "of_int \<lfloor>y\<rfloor> < (of_int b :: real)" by linarith
    then show ?thesis by simp
  qed
  show ?thesis
    using lo hi up by (auto simp: round_half_even_def Let_def)
qed

lemma py_round_bounds:
  assumes "of_int a \<le> x" "x \<le> of_int b"
  shows "of_int a \<le> py_round x n \<and> py_round x n \<le> of_int b"
proof -
  have "of_int (a * 10 ^ n) \<le> x * 10 ^ n" "x * 10 ^ n \<le> of_int (b * 10 ^ n)"
    using assms by simp_all
  from round_half_even_bounds [OF this]
  have "a * 10 ^ n \<le> round_half_even (x * 10 ^ n)" "round_half_even (x * 10 ^ n) \<le> b * 10 ^ n"
    by simp_all
  then have "of_int (a * 10 ^ n) \<le> (of_int (round_half_even (x * 10 ^ n)) :: real)"
    "(of_int (round_half_even (x * 10 ^ n)) :: real) \<le> of_int (b * 10 ^ n)"
    by (simp_all only: of_int_le_iff)
  then show ?thesis
    by (simp add: py_round_def pos_le_divide_eq pos_divide_le_eq)
qed

lemma calculate_confidence_bounds:
  "0 \<le> calculate_confidence vs tb ps \<and> calculate_confidence vs tb ps \<le> 1"
proof -
  define nz where "nz = filter (\<lambda>s. \<bar>s\<bar> > 0.05) [compound vs, tb, ps]"
  define m where "m = max (max (int (length (filter (\<lambda>s. s > 0.1) nz)))
      (int (length (filter (\<lambda>s. s < -0.1) nz))))
      (int (length nz) - int (length (filter (\<lambda>s. s > 0.1) nz))
         - int (length (filter (\<lambda>s. s < -0.1) nz)))"
  have m: "0 \<le> m" by (simp add: m_def max_def)
  have s: "0 \<le> sum_list (map (\<lambda>s. \<bar>s\<bar>) nz)" by (rule sum_list_nonneg) auto
  have eq: "calculate_confidence vs tb ps =
      (if length nz < 2 then 0.5
       else min (real_of_int m / real (length nz) * 0.7
                 + sum_list (map (\<lambda>s. \<bar>s\<bar>) nz) / real (length nz) * 0.3) 1.0)"
    unfolding calculate_confidence_def Let_def nz_def m_def ..
  have "0 \<le> real_of_int m / real (length nz) * 0.7
                 + sum_list (map (\<lambda>s. \<bar>s\<bar>) nz) / real (length nz) * 0.3"
    using m s by (intro add_nonneg_nonneg mult_nonneg_nonneg divide_nonneg_nonneg) simp_all
  then show ?thesis unfolding eq by simp
qed

text \<open>
  C1. For every input text, and whatever the two libraries compute, the result of
  \<open>analyze\<close> has its compound score between -1 and 1 and its confidence between 0 and 1.
\<close>

theorem analyze_bounded:
  "-1.0 \<le> compound_score (fst (analyze libs self text))
   \<and> compound_score (fst (analyze libs self text)) \<le> 1.0
   \<and> 0.0 \<le> confidence (fst (analyze libs self text))
   \<and> confidence (fst (analyze libs self text)) \<le> 1.0"
proof (cases "text = [] \<or> str_strip text = []")
  case True
  then have "analyze libs self text = (empty_result, [])" by (simp add: analyze_def)
  then show ?thesis by (simp add: empty_result_def)
next
  case False
  define cleaned where "cleaned = preprocess_text libs text"
  define combined where "combined = calculate_combined_score
      (compound (polarity_scores libs cleaned)) (fst (textblob_sentiment libs cleaned))
      (psychology_weighted_analysis self cleaned) (analyze_emotional_intensity libs cleaned)"
  define conf where "conf = calculate_confidence (polarity_scores libs cleaned)
      (fst (textblob_sentiment libs cleaned)) (psychology_weighted_analysis self cleaned)"
  have cs: "compound_score (fst (analyze libs self text)) = py_round combined 3"
    and cf: "confidence (fst (analyze libs self text)) = py_round conf 3"
    using False
    by (simp_all add: analyze_def Let_def case_prod_beta cleaned_def combined_def conf_def)
  have "of_int (-1) \<le> combined" "combined \<le> of_int 1"
    by (simp_all add: combined_def calculate_combined_score_def Let_def)
  from py_round_bounds [OF this, of 3] have b1: "-1 \<le> py_round combined 3" "py_round combined 3 \<le> 1"
    by simp_all
  have "of_int 0 \<le> conf" "conf \<le> of_int 1"
    using calculate_confidence_bounds by (simp_all add: conf_def)
  from py_round_bounds [OF this, of 3] have b2: "0 \<le> py_round conf 3" "py_round conf 3 \<le> 1"
    by simp_all
  show ?thesis using b1 b2 by (simp add: cs cf)
qed

section \<open>Normalisation and the uppercase ratio\<close>

lemma latin1_not_keeps_upper: "c < 256 \<Longrightarrow> \<not> lower_keeps_upper libs c"
  by (auto simp: lower_keeps_upper_def lower_forms_def char_lower_def str_isupper_def)

lemma py_below_256: "c \<in> set (py s) \<Longrightarrow> c < 256"
proof -
  have "(of_char x :: nat) < 256" for x
    using of_char_mod_256 [of x, where ?'a = nat] mod_less_divisor [of 256 "of_char x"]
    by simp
  then show "c \<in> set (py s) \<Longrightarrow> c < 256" by (auto simp: py_def)
qed

lemma sub_spaces_set: "set (sub_spaces t) \<subseteq> insert 0x20 (set t)"
proof (induction t rule: sub_spaces.induct)
  case 1
  show ?case by simp
next
  case (2 c cs)
  show ?case
  proof (cases "str_isspace c")
    case True
    with 2 have "set (sub_spaces (dropWhile str_isspace cs)) \<subseteq> insert 0x20 (set (dropWhile str_isspace cs))"
      by simp
    moreover have "set (dropWhile str_isspace cs) \<subseteq> set cs"
      by (auto dest: set_dropWhileD)
    ultimately show ?thesis using True by auto
  next
    case False
    with 2 show ?thesis by auto
  qed
qed

lemma sub_word_set: "set (sub_word libs pat repl prev t) \<subseteq> set repl \<union> set t"
proof (induction libs pat repl prev t rule: sub_word.induct)
  case (1 libs pat repl prev)
  show ?case by simp
next
  case (2 libs pat repl prev c cs)
  show ?case
  proof (cases "match_here libs pat prev (c # cs)")
    case True
    with 2 have "set (sub_word libs pat repl (Some ((c # cs) ! (length pat - 1))) (drop (length pat) (c # cs)))
        \<subseteq> set repl \<union> set (drop (length pat) (c # cs))"
      by simp
    moreover have "set (drop (length pat) (c # cs)) \<subseteq> set (c # cs)"
      by (rule set_drop_subset)
    ultimately show ?thesis using True by (simp del: drop_Suc_Cons) blast
  next
    case False
    with 2 show ?thesis by auto
  qed
qed

lemma str_strip_set: "set (str_strip t) \<subseteq> set t"
  by (auto simp: str_strip_def dest!: set_dropWhileD)

lemma contractions_below_256:
  "(contraction, expansion) \<in> set contractions \<Longrightarrow> \<forall>c\<in>set expansion. c < 256"
  by (auto simp: contractions_def dest: py_below_256)

lemma expand_no_keeps_upper:
  assumes "\<forall>c\<in>set t. \<not> lower_keeps_upper libs c" "set cs \<subseteq> set contractions"
  shows "\<forall>c\<in>set (foldl (\<lambda>t (contraction, expansion). sub_word libs contraction expansion None t) t cs).
           \<not> lower_keeps_upper libs c"
  using assms
proof (induction cs arbitrary: t)
  case Nil
  then show ?case by simp
next
  case (Cons p cs)
  obtain contraction expansion where p: "p = (contraction, expansion)" by (cases p rule: prod.exhaust)
  with Cons.prems(2) have "\<forall>c\<in>set expansion. c < 256"
    using contractions_below_256 [of contraction expansion] by simp
  then have "\<forall>c\<in>set expansion. \<not> lower_keeps_upper libs c"
    by (simp add: latin1_not_keeps_upper)
  with Cons.prems(1) have "\<forall>c\<in>set (sub_word libs contraction expansion None t). \<not> lower_keeps_upper libs c"
    using sub_word_set [of libs contraction expansion None t] by blast
  from Cons.IH [OF this] Cons.prems(2) show ?case by (simp add: p)
qed

lemma str_lower_set:
  "x \<in> set (str_lower libs t) \<Longrightarrow> \<exists>c\<in>set t. x \<in> set (lower_forms libs c)"
proof -
  assume "x \<in> set (str_lower libs t)"
  then obtain i where i: "i < length t" and x: "x \<in> set (lower_at libs t i)"
    by (auto simp: str_lower_def)
  have "x \<in> set (lower_forms libs (t ! i))"
    using x by (auto simp: lower_at_def lower_forms_def split: if_splits)
  with i show ?thesis using nth_mem [of i t] by blast
qed

lemma str_lower_no_upper:
  assumes "\<forall>c\<in>set t. \<not> lower_keeps_upper libs c"
  shows "filter (str_isupper libs) (str_lower libs t) = []"
proof -
  have "\<not> str_isupper libs x" if "x \<in> set (str_lower libs t)" for x
  proof -
    from str_lower_set [OF that] obtain c where "c \<in> set t" "x \<in> set (lower_forms libs c)"
      by blast
    with assms show ?thesis by (auto simp: lower_keeps_upper_def list_ex_iff)
  qed
  then show ?thesis by (simp add: filter_empty_conv)
qed

lemma preprocess_text_no_upper:
  assumes "\<forall>c\<in>set text. \<not> lower_keeps_upper libs c"
  shows "filter (str_isupper libs) (preprocess_text libs text) = []"
proof -
  have "\<not> lower_keeps_upper libs 0x20"
    by (rule latin1_not_keeps_upper) simp
  then have "\<forall>c\<in>set (sub_spaces (str_strip text)). \<not> lower_keeps_upper libs c"
    using assms sub_spaces_set [of "str_strip text"] str_strip_set [of "text"] by fastforce
  from expand_no_keeps_upper [OF this subset_refl]
  show ?thesis unfolding preprocess_text_def by (rule str_lower_no_upper)
qed

lemma intensity_caps_zero:
  "caps_ratio libs t = 0 \<Longrightarrow> analyze_emotional_intensity libs t = intensity_without_caps t"
  by (simp add: analyze_emotional_intensity_def intensity_without_caps_def Let_def)

text \<open>
  The hypothesis on the characters of a text is that its \<open>lower()\<close> holds no uppercase
  character, for a text without the capital sigma (whose two lowercase forms depend on
  its place in the text).
\<close>

lemma str_lower_no_sigma:
  "0x3A3 \<notin> set t \<Longrightarrow> str_lower libs t = concat (map (char_lower libs) t)"
proof -
  assume a: "0x3A3 \<notin> set t"
  have "t ! i \<noteq> 0x3A3" if "i < length t" for i
    using a nth_mem [OF that] by metis
  then have "map (lower_at libs t) [0..<length t] = map (\<lambda>i. char_lower libs (t ! i)) [0..<length t]"
    by (simp add: lower_at_def)
  also have "\<dots> = map (char_lower libs) (map ((!) t) [0..<length t])" by simp
  also have "\<dots> = map (char_lower libs) t" by (simp only: map_nth)
  finally show ?thesis by (simp add: str_lower_def)
qed

lemma lower_keeps_upper_iff:
  assumes "0x3A3 \<notin> set t"
  shows "(\<forall>c\<in>set t. \<not> lower_keeps_upper libs c) \<longleftrightarrow>
         filter (str_isupper libs) (str_lower libs t) = []"
  using assms
  by (auto simp: str_lower_no_sigma filter_empty_conv lower_keeps_upper_def lower_forms_def
      list_ex_iff)

text \<open>
  C8, amended. For every input text none of whose characters \<open>lower()\<close> can leave or make
  uppercase, and whatever the libraries compute: the text that \<open>analyze\<close> passes to the
  intensity scorer holds no uppercase character, so the uppercase-ratio term of the
  intensity score is exactly 0, the scorer returns the score of its two other terms, and
  the \<open>emotional_intensity\<close> of the result of \<open>analyze\<close> is that score, rounded (0 for a
  text that is empty or only whitespace, where the scorer is not called).
\<close>

theorem caps_term_zero_unless_lower_keeps_upper:
  assumes "\<forall>c\<in>set text. \<not> lower_keeps_upper libs c"
  shows "caps_ratio libs (preprocess_text libs text) * 0.2 = 0
     \<and> analyze_emotional_intensity libs (preprocess_text libs text) =
         intensity_without_caps (preprocess_text libs text)
     \<and> emotional_intensity (fst (analyze libs self text)) =
         (if text = [] \<or> str_strip text = [] then 0.0
          else py_round (intensity_without_caps (preprocess_text libs text)) 3)"
proof -
  have caps: "caps_ratio libs (preprocess_text libs text) = 0"
    using preprocess_text_no_upper [OF assms] by (simp add: caps_ratio_def)
  have score: "analyze_emotional_intensity libs (preprocess_text libs text) =
      intensity_without_caps (preprocess_text libs text)"
    using caps by (rule intensity_caps_zero)
  have "emotional_intensity (fst (analyze libs self text)) =
      (if text = [] \<or> str_strip text = [] then 0.0
       else py_round (analyze_emotional_intensity libs (preprocess_text libs text)) 3)"
    by (simp add: analyze_def Let_def case_prod_beta empty_result_def)
  with caps score show ?thesis by simp
qed

lemma ci_prefix_length: "ci_prefix pat t \<Longrightarrow> length pat \<le> length t"
  by (induction pat t rule: ci_prefix.induct) simp_all

lemma sub_word_short:
  "length t < length pat \<Longrightarrow> sub_word libs pat repl prev t = t"
proof (induction t arbitrary: prev)
  case Nil
  show ?case by simp
next
  case (Cons c cs)
  have "\<not> ci_prefix pat (c # cs)"
    using Cons.prems ci_prefix_length [of pat "c # cs"] by auto
  then have "\<not> match_here libs pat prev (c # cs)" by (simp add: match_here_def)
  moreover have "sub_word libs pat repl (Some c) cs = cs" using Cons by simp
  ultimately show ?case by simp
qed

lemma contractions_long:
  "(contraction, expansion) \<in> set contractions \<Longrightarrow> 1 < length contraction"
  by (auto simp: contractions_def py_def)

lemma expand_one_char:
  "set cs \<subseteq> set contractions \<Longrightarrow>
   foldl (\<lambda>t (contraction, expansion). sub_word libs contraction expansion None t) [c] cs = [c]"
proof (induction cs)
  case Nil
  show ?case by simp
next
  case (Cons p cs)
  obtain contraction expansion where p: "p = (contraction, expansion)" by (cases p rule: prod.exhaust)
  with Cons.prems have "1 < length contraction" using contractions_long [of contraction expansion] by simp
  then have "sub_word libs contraction expansion None [c] = [c]" by (intro sub_word_short) simp
  with Cons show ?case by (simp add: p)
qed

lemma with_entries_upsilon:
  "str_isupper (with_entries libs) 0x3D2" "char_lower (with_entries libs) 0x3D2 = [0x3D2]"
  by (simp_all add: with_entries_def str_isupper_def char_lower_def)

lemma preprocess_upsilon: "preprocess_text (with_entries libs) [0x3D2] = [0x3D2]"
proof -
  have "sub_spaces (str_strip [0x3D2]) = [0x3D2]"
    by (simp add: str_strip_def str_isspace_def)
  then show ?thesis
    using expand_one_char [OF subset_refl, of "with_entries libs" "0x3D2"]
    by (simp add: preprocess_text_def str_lower_def lower_at_def with_entries_upsilon)
qed

lemma py_round_one_fifth: "py_round 0.2 3 = 0.2" "py_round (1 / 5) 3 = 1 / 5"
  by (simp_all add: py_round_def round_half_even_def)

text \<open>
  C8, as stated: for every input text the uppercase-ratio term contributes 0 to the
  intensity score that \<open>analyze\<close> computes. It does not for the text of the one letter
  U+03D2, an uppercase letter that \<open>lower()\<close> leaves as it is, whatever the libraries hold
  for the other characters: there the ratio is 1, the term is 0.2 where the two other
  terms are 0, and the \<open>emotional_intensity\<close> of the result of \<open>analyze\<close> is 0.2.
\<close>

theorem caps_term_upsilon:
  "\<forall>libs self.
     lower_keeps_upper (with_entries libs) 0x3D2
     \<and> caps_ratio (with_entries libs) (preprocess_text (with_entries libs) [0x3D2]) * 0.2 \<noteq> 0
     \<and> intensity_without_caps (preprocess_text (with_entries libs) [0x3D2]) = 0
     \<and> analyze_emotional_intensity (with_entries libs)
         (preprocess_text (with_entries libs) [0x3D2]) = 0.2
     \<and> emotional_intensity (fst (analyze (with_entries libs) self [0x3D2])) = 0.2"
proof (intro allI)
  fix libs self
  have a: "lower_keeps_upper (with_entries libs) 0x3D2"
    by (simp add: lower_keeps_upper_def lower_forms_def with_entries_upsilon)
  have b: "caps_ratio (with_entries libs) [0x3D2] = 1"
    by (simp add: caps_ratio_def with_entries_upsilon)
  have c: "intensity_without_caps [0x3D2] = 0"
    by (simp add: intensity_without_caps_def Let_def str_split_def str_isspace_def
        str_split_on_def intensity_indicators_def py_def)
  have d: "analyze_emotional_intensity (with_entries libs) [0x3D2] = 0.2"
    using b
    by (simp add: analyze_emotional_intensity_def Let_def str_split_def str_isspace_def
        str_split_on_def intensity_indicators_def py_def)
  have e: "str_strip [0x3D2] \<noteq> []"
    by (simp add: str_strip_def str_isspace_def)
  have f: "emotional_intensity (fst (analyze (with_entries libs) self [0x3D2])) = 0.2"
    using e by (simp add: analyze_def Let_def case_prod_beta preprocess_upsilon d py_round_one_fifth)
  show "lower_keeps_upper (with_entries libs) 0x3D2
     \<and> caps_ratio (with_entries libs) (preprocess_text (with_entries libs) [0x3D2]) * 0.2 \<noteq> 0
     \<and> intensity_without_caps (preprocess_text (with_entries libs) [0x3D2]) = 0
     \<and> analyze_emotional_intensity (with_entries libs)
         (preprocess_text (with_entries libs) [0x3D2]) = 0.2
     \<and> emotional_intensity (fst (analyze (with_entries libs) self [0x3D2])) = 0.2"
    unfolding preprocess_upsilon using a b c d f by simp
qed


lemma preprocess_privet:
  "preprocess_text (with_entries libs) [0x41F, 0x420, 0x418, 0x412, 0x415, 0x422] =
     [0x43F, 0x440, 0x438, 0x432, 0x435, 0x442]"
proof -
  have s: "sub_spaces (str_strip [0x41F, 0x420, 0x418, 0x412, 0x415, 0x422]) =
      [0x41F, 0x420, 0x418, 0x412, 0x415, 0x422 :: nat]"
    by (simp add: str_strip_def str_isspace_def)
  have e: "foldl (\<lambda>t (contraction, expansion). sub_word (with_entries libs) contraction expansion None t)
      [0x41F, 0x420, 0x418, 0x412, 0x415, 0x422] contractions = [0x41F, 0x420, 0x418, 0x412, 0x415, 0x422]"
    by (simp add: contractions_def py_def match_here_def ci_match_def)
  show ?thesis
    unfolding preprocess_text_def s e
    by (simp add: str_lower_def lower_at_def char_lower_def with_entries_def upt_rec)
qed

theorem caps_term_zero_unless_lower_keeps_upper_witness:
  "\<forall>libs self.
     preprocess_text (with_entries libs) [0x41F, 0x420, 0x418, 0x412, 0x415, 0x422] =
       [0x43F, 0x440, 0x438, 0x432, 0x435, 0x442]
     \<and> caps_ratio (with_entries libs)
         (preprocess_text (with_entries libs) [0x41F, 0x420, 0x418, 0x412, 0x415, 0x422]) * 0.2 = 0
     \<and> analyze_emotional_intensity (with_entries libs)
         (preprocess_text (with_entries libs) [0x41F, 0x420, 0x418, 0x412, 0x415, 0x422]) = 0
     \<and> emotional_intensity
         (fst (analyze (with_entries libs) self [0x41F, 0x420, 0x418, 0x412, 0x415, 0x422])) = 0"
proof (intro allI)
  fix libs self
  have h: "\<forall>c\<in>set [0x41F, 0x420, 0x418, 0x412, 0x415, 0x422].
      \<not> lower_keeps_upper (with_entries libs) c"
    by (simp add: lower_keeps_upper_def lower_forms_def char_lower_def str_isupper_def
        with_entries_def)
  have s: "str_strip [0x41F, 0x420, 0x418, 0x412, 0x415, 0x422] \<noteq> []"
    by (simp add: str_strip_def str_isspace_def)
  have i: "intensity_without_caps [0x43F, 0x440, 0x438, 0x432, 0x435, 0x442] = 0"
    by (simp add: intensity_without_caps_def Let_def str_split_def str_isspace_def
        str_split_on_def intensity_indicators_def py_def)
  have r: "py_round 0 3 = 0"
    by (simp add: py_round_def round_half_even_def)
  from caps_term_zero_unless_lower_keeps_upper [OF h, of self]
  show "preprocess_text (with_entries libs) [0x41F, 0x420, 0x418, 0x412, 0x415, 0x422] =
       [0x43F, 0x440, 0x438, 0x432, 0x435, 0x442]
     \<and> caps_ratio (with_entries libs)
         (preprocess_text (with_entries libs) [0x41F, 0x420, 0x418, 0x412, 0x415, 0x422]) * 0.2 = 0
     \<and> analyze_emotional_intensity (with_entries libs)
         (preprocess_text (with_entries libs) [0x41F, 0x420, 0x418, 0x412, 0x415, 0x422]) = 0
     \<and> emotional_intensity
         (fst (analyze (with_entries libs) self [0x41F, 0x420, 0x418, 0x412, 0x415, 0x422])) = 0"
    using s unfolding preprocess_privet by (simp add: i r)
qed


end
